theory Spec2Isabelle
  imports Main "HOL-Library.Word"
begin

section \<open>JavaScript values\<close>

text \<open>
  A JavaScript string is a sequence of 16-bit code units. The model keeps that, so that
  \<open>length\<close> is the \<open>.length\<close> of the source, \<open>trim\<close> can strip the code units that
  JavaScript calls white space, and the legacy gender value with the dotless i (U+0131)
  can be written down. \<open>js\<close> embeds an ASCII literal.
\<close>

type_synonym jsstring = "16 word list"

definition js :: "string \<Rightarrow> jsstring" where
  "js s = map of_char s"

text \<open>
  The values a request payload can hold: what a JSON or form body parser produces.
  Numbers are the integer-valued ones; fractions, NaN and the infinities are outside the
  model. An object is the list of its own properties, each under its name; where the list
  repeats a name, the first entry is the property.
\<close>

datatype jsval =
    JUndefined
  | JNull
  | JBool bool
  | JNum int
  | JStr jsstring
  | JArr "jsval list"
  | JObj "(jsstring \<times> jsval) list"

datatype jstype = T_undefined | T_object | T_boolean | T_number | T_string

fun typeof :: "jsval \<Rightarrow> jstype" where
  "typeof JUndefined = T_undefined"
| "typeof JNull = T_object"
| "typeof (JBool b) = T_boolean"
| "typeof (JNum n) = T_number"
| "typeof (JStr s) = T_string"
| "typeof (JArr xs) = T_object"
| "typeof (JObj kvs) = T_object"

text \<open>Truthiness: what \<open>!v\<close> negates.\<close>

fun truthy :: "jsval \<Rightarrow> bool" where
  "truthy JUndefined = False"
| "truthy JNull = False"
| "truthy (JBool b) = b"
| "truthy (JNum n) = (n \<noteq> 0)"
| "truthy (JStr s) = (s \<noteq> [])"
| "truthy (JArr xs) = True"
| "truthy (JObj kvs) = True"

text \<open>
  Property access \<open>v.k\<close>, for the payload field names the source reads (name, phone,
  gender, birth_year, country, city, town, email, password, code). None of them is a
  property of a string, a number, a boolean or an array, so only an object can answer.
  The source reads a property of a value only after \<open>!v\<close> has excluded null and
  undefined.
\<close>

fun js_get :: "jsval \<Rightarrow> jsstring \<Rightarrow> jsval" where
  "js_get (JObj kvs) k = (case map_of kvs k of Some v \<Rightarrow> v | None \<Rightarrow> JUndefined)"
| "js_get v k = JUndefined"

text \<open>Whether an object has the own property \<open>k\<close>.\<close>

fun has_field :: "jsval \<Rightarrow> jsstring \<Rightarrow> bool" where
  "has_field (JObj kvs) k = (map_of kvs k \<noteq> None)"
| "has_field v k = False"

section \<open>The user collection\<close>

text \<open>
  The error tags the model methods hand to their callback.
\<close>

datatype error =
    bad_request
  | document_not_found
  | password_verification
  | email_validation
  | password_length
  | email_duplication
  | database_error
  | already_authenticated
  | phone_validation

text \<open>
  What a call does with its callback: \<open>Error e\<close> is \<open>callback(e)\<close>, \<open>Success v\<close>
  is \<open>callback(null, v)\<close>, and \<open>TypeError\<close> is the exception JavaScript throws when
  a method is called on a value that does not have it; then the callback is not invoked.
\<close>

datatype 'a outcome = Error error | Success 'a | TypeError

text \<open>An \<open>_id\<close> is kept as the ObjectId it is; \<open>user_id\<close> is the field \<open>_id\<close>.\<close>

type_synonym oid = jsstring

record user =
  user_id :: oid
  email :: jsstring
  password :: jsstring
  agreement_approved :: bool
  completed :: bool
  country :: "jsstring option"
  name :: "jsstring option"
  phone :: "jsstring option"
  gender :: "jsstring option"
  birth_year :: "int option"
  city :: "jsstring option"
  town :: "jsstring option"
  information :: "(jsstring \<times> jsval) list"
  paid_campaigns :: "jsval list"
  campaigns :: "jsval list"
  payment_number :: "jsstring option"
  credit :: int
  waiting_credit :: int
  overall_credit :: int
  invitor :: "jsstring option"
  password_reset_code :: "jsstring option"
  password_reset_last_date :: "int option"

text \<open>The collection, in insertion order.\<close>

type_synonym db = "user list"

text \<open>
  The persistence layer can fail at each call. Whether it does is an input of the model:
  one flag for each kind of database call the source makes.
\<close>

record faults =
  findOne_fails :: bool
  findById_fails :: bool
  findByIdAndUpdate_fails :: bool
  save_fails :: bool

text \<open>
  \<open>findById\<close> and \<open>findByIdAndUpdate\<close> return the pair \<open>(err, user)\<close> their callback
  receives. A failed update changes nothing. \<open>findByIdAndUpdate\<close> hands over the
  document as it was before the update, or as it is after it with the option \<open>new\<close>.
\<close>

definition findById :: "faults \<Rightarrow> db \<Rightarrow> oid \<Rightarrow> bool \<times> user option" where
  "findById f db i =
     (if findById_fails f then (True, None) else (False, find (\<lambda>u. user_id u = i) db))"

fun update_first :: "oid \<Rightarrow> (user \<Rightarrow> user) \<Rightarrow> db \<Rightarrow> db" where
  "update_first i upd [] = []"
| "update_first i upd (u # us) =
     (if user_id u = i then upd u # us else u # update_first i upd us)"

definition findByIdAndUpdate ::
  "faults \<Rightarrow> db \<Rightarrow> oid \<Rightarrow> (user \<Rightarrow> user) \<Rightarrow> bool \<Rightarrow> (bool \<times> user option) \<times> db" where
  "findByIdAndUpdate f db i upd new =
     (if findByIdAndUpdate_fails f then ((True, None), db)
      else let found = find (\<lambda>u. user_id u = i) db
           in ((False, if new then map_option upd found else found), update_first i upd db))"

text \<open>
  \<open>findOne\<close> returns a promise: \<open>None\<close> is the rejected promise, \<open>Some r\<close> the
  promise resolved with \<open>r\<close>.
\<close>

definition findOne :: "faults \<Rightarrow> db \<Rightarrow> jsstring \<Rightarrow> user option option" where
  "findOne f db e =
     (if findOne_fails f then None else Some (find (\<lambda>u. email u = e) db))"

text \<open>
  The libraries and the modules of the repository that the model file requires but does
  not define are parameters: the three predicates of the validator library, the ObjectId
  constructor and the string cast of the database library, the two lookups of the Country
  model (the country record reduced to the field the source reads, \<open>None\<close> for an error
  or no country), the password hash and its verification, and what \<open>getUser\<close> does with
  its callback when it is handed no document. So is the string JavaScript prints for an
  integer of magnitude \<open>2 ^ 53\<close> or more: it is the shortest decimal that reads back as
  the same double, in exponent notation from \<open>10 ^ 21\<close> on, which the model does not
  compute.
\<close>

record country_doc =
  alpha2_code :: jsstring

record ext =
  isEmail :: "jsstring \<Rightarrow> bool"
  isMongoId :: "jsstring \<Rightarrow> bool"
  isMobilePhone :: "jsstring \<Rightarrow> bool"
  ObjectId :: "jsstring \<Rightarrow> oid"
  castString :: "jsval \<Rightarrow> jsstring option"
  getCountryWithAlpha2Code :: "jsval \<Rightarrow> country_doc option"
  validateCityAndTown :: "jsstring option \<Rightarrow> jsval \<Rightarrow> bool"
  hashPassword :: "jsstring \<Rightarrow> jsstring"
  verifyPassword :: "jsstring \<Rightarrow> jsstring \<Rightarrow> bool"
  getUser_absent :: "jsval outcome list"
  Number_toString :: "int \<Rightarrow> jsstring"

section \<open>Conversions\<close>

subsection \<open>Conversion to string\<close>

definition digit_char :: "nat \<Rightarrow> 16 word" where
  "digit_char d = of_nat (48 + d)"

fun nat_digits :: "nat \<Rightarrow> jsstring" where
  "nat_digits n = (if n < 10 then [digit_char n] else nat_digits (n div 10) @ [digit_char (n mod 10)])"

definition int_digits :: "int \<Rightarrow> jsstring" where
  "int_digits n = (if n < 0 then 0x2D # nat_digits (nat (- n)) else nat_digits (nat n))"

fun join_comma :: "jsstring list \<Rightarrow> jsstring" where
  "join_comma [] = []"
| "join_comma [s] = s"
| "join_comma (s # t # ss) = s @ 0x2C # join_comma (t # ss)"

text \<open>
  \<open>ToString\<close> is the conversion behind \<open>parseInt(v)\<close> and, for the truthy values
  the source calls it on, behind \<open>v.toString()\<close>; \<open>None\<close> is the TypeError it
  throws. An integer below \<open>2 ^ 53\<close> in magnitude prints its decimal digits, a larger
  one the parameter \<open>Number_toString\<close>. An array prints its elements joined by commas,
  null and undefined elements as the empty string. An object prints as
  \<open>[object Object]\<close>, unless it has an own property \<open>toString\<close>: what a payload
  holds there is not a function, so the conversion throws.
\<close>

fun ToString :: "ext \<Rightarrow> jsval \<Rightarrow> jsstring option" where
  "ToString x JUndefined = Some (js ''undefined'')"
| "ToString x JNull = Some (js ''null'')"
| "ToString x (JBool b) = Some (if b then js ''true'' else js ''false'')"
| "ToString x (JNum n) =
     Some (if \<bar>n\<bar> < 2 ^ 53 then int_digits n else Number_toString x n)"
| "ToString x (JStr s) = Some s"
| "ToString x (JArr vs) =
     map_option join_comma
       (those (map (\<lambda>v. if v = JUndefined \<or> v = JNull then Some [] else ToString x v) vs))"
| "ToString x (JObj kvs) =
     (if map_of kvs (js ''toString'') \<noteq> None then None else Some (js ''[object Object]''))"

text \<open>The string that a value of type string is.\<close>

fun str :: "jsval \<Rightarrow> jsstring" where
  "str (JStr s) = s"
| "str v = []"

subsection \<open>White space, trim and parseInt\<close>

definition is_whitespace :: "16 word \<Rightarrow> bool" where
  "is_whitespace c \<longleftrightarrow>
     c \<in> set [0x9, 0xA, 0xB, 0xC, 0xD, 0x20, 0xA0, 0x1680,
              0x2000, 0x2001, 0x2002, 0x2003, 0x2004, 0x2005, 0x2006, 0x2007, 0x2008,
              0x2009, 0x200A, 0x2028, 0x2029, 0x202F, 0x205F, 0x3000, 0xFEFF]"

definition trim :: "jsstring \<Rightarrow> jsstring" where
  "trim s = rev (dropWhile is_whitespace (rev (dropWhile is_whitespace s)))"

definition digit_value :: "16 word \<Rightarrow> nat option" where
  "digit_value c =
     (if 0x30 \<le> c \<and> c \<le> 0x39 then Some (unat c - 48)
      else if 0x61 \<le> c \<and> c \<le> 0x7A then Some (unat c - 87)
      else if 0x41 \<le> c \<and> c \<le> 0x5A then Some (unat c - 55)
      else None)"

definition is_digit :: "nat \<Rightarrow> 16 word \<Rightarrow> bool" where
  "is_digit radix c = (case digit_value c of None \<Rightarrow> False | Some d \<Rightarrow> d < radix)"

definition digits_value :: "nat \<Rightarrow> jsstring \<Rightarrow> nat" where
  "digits_value radix z =
     foldl (\<lambda>a c. a * radix + (case digit_value c of None \<Rightarrow> 0 | Some d \<Rightarrow> d)) 0 z"

text \<open>
  \<open>parseInt\<close> with no radix argument converts its argument to a string; then
  leading white space is skipped, a sign is read, a prefix 0x or 0X selects radix 16, and
  the longest run of digits is the value; no digit at all is NaN, here \<open>None\<close>. The
  source compares the result with 1920 and 2020 and stores it only when it lies between
  them, where the double it really is and the integer of the model are the same number.
  The result of \<open>parseInt\<close> on a value is \<open>None\<close> when the conversion to a string
  throws, \<open>Some None\<close> for NaN and \<open>Some (Some n)\<close> for the integer \<open>n\<close>.
\<close>

definition parseInt_string :: "jsstring \<Rightarrow> int option" where
  "parseInt_string s =
     (let s1 = dropWhile is_whitespace s;
          neg = (s1 \<noteq> [] \<and> hd s1 = 0x2D);
          s2 = (if s1 \<noteq> [] \<and> (hd s1 = 0x2B \<or> hd s1 = 0x2D) then tl s1 else s1);
          hex = (length s2 \<ge> 2 \<and> hd s2 = 0x30 \<and> (hd (tl s2) = 0x78 \<or> hd (tl s2) = 0x58));
          radix = (if hex then 16 else 10);
          s3 = (if hex then drop 2 s2 else s2);
          z = takeWhile (is_digit radix) s3
      in if z = [] then None
         else Some ((if neg then - 1 else 1) * int (digits_value radix z)))"

definition parseInt :: "ext \<Rightarrow> jsval \<Rightarrow> int option option" where
  "parseInt x v = map_option parseInt_string (ToString x v)"

section \<open>completeUser\<close>

definition allowedGenderValues :: "jsval list" where
  "allowedGenderValues =
     [JStr (js ''male''), JStr (js ''female''), JStr (js ''other''), JStr (js ''not_specified'')]"

text \<open>
  \<open>data.phone ? data.phone.split(' ').join('') : null\<close>: a falsy phone becomes null, a
  string loses its space characters (U+0020 only), and any other truthy value has no
  method \<open>split\<close>, so the call throws; that is \<open>None\<close>.
\<close>

fun strip_phone :: "jsval \<Rightarrow> jsval option" where
  "strip_phone (JStr s) = (if s = [] then Some JNull else Some (JStr (filter (\<lambda>c. c \<noteq> 0x20) s)))"
| "strip_phone v = (if truthy v then None else Some JNull)"

text \<open>
  The fields \<open>completeUser\<close> writes with \<open>$set\<close>. The name, the phone and the
  gender are strings where the source has established that they are; \<open>birth\<close> is the
  integer \<open>parseInt(data.birth_year)\<close> has been found to be.
\<close>

definition completeUser_set ::
  "jsval \<Rightarrow> jsval \<Rightarrow> int \<Rightarrow> country_doc \<Rightarrow> user \<Rightarrow> user" where
  "completeUser_set data data_phone birth country_found d =
     d\<lparr>name := Some (str (js_get data (js ''name''))),
       country := Some (alpha2_code country_found),
       phone := Some (str data_phone),
       gender := Some (str (js_get data (js ''gender''))),
       birth_year := Some birth,
       completed := True\<rparr>"

text \<open>The callback of \<open>getCountryWithAlpha2Code\<close>, once a country is there.\<close>

definition completeUser_store ::
  "ext \<Rightarrow> faults \<Rightarrow> jsstring \<Rightarrow> jsval \<Rightarrow> jsval \<Rightarrow> int \<Rightarrow> country_doc \<Rightarrow> db
     \<Rightarrow> unit outcome \<times> db" where
  "completeUser_store x f i data data_phone birth country_found db =
     (case findById f db (ObjectId x i) of
        (False, Some u) \<Rightarrow>
          if completed u then (Error already_authenticated, db)
          else (case findByIdAndUpdate f db (ObjectId x i)
                       (completeUser_set data data_phone birth country_found) False of
                  ((True, _), db') \<Rightarrow> (Error database_error, db')
                | ((False, None), db') \<Rightarrow> (Error document_not_found, db')
                | ((False, Some _), db') \<Rightarrow> (Success (), db'))
      | _ \<Rightarrow> (Error document_not_found, db))"

text \<open>
  The body of \<open>completeUser\<close>, check by check in the order of the source. The birth
  year check stops at a falsy value before \<open>parseInt\<close> is called; when it is called and
  the conversion throws, so does \<open>completeUser\<close>.
\<close>

definition completeUser ::
  "ext \<Rightarrow> faults \<Rightarrow> jsstring \<Rightarrow> jsval \<Rightarrow> db \<Rightarrow> unit outcome \<times> db" where
  "completeUser x f i data db =
     (if \<not> truthy data \<or> typeof data \<noteq> T_object \<or> i = [] \<or> \<not> isMongoId x i
      then (Error bad_request, db)
      else if \<not> truthy (js_get data (js ''name''))
              \<or> typeof (js_get data (js ''name'')) \<noteq> T_string
      then (Error bad_request, db)
      else case strip_phone (js_get data (js ''phone'')) of
        None \<Rightarrow> (TypeError, db)
      | Some data_phone \<Rightarrow>
          if \<not> truthy data_phone \<or> \<not> isMobilePhone x (str data_phone)
          then (Error phone_validation, db)
          else if \<not> truthy (js_get data (js ''gender''))
                  \<or> js_get data (js ''gender'') \<notin> set allowedGenderValues
          then (Error bad_request, db)
          else if \<not> truthy (js_get data (js ''birth_year''))
          then (Error bad_request, db)
          else (case parseInt x (js_get data (js ''birth_year'')) of
                  None \<Rightarrow> (TypeError, db)
                | Some None \<Rightarrow> (Error bad_request, db)
                | Some (Some birth) \<Rightarrow>
                    if birth < 1920 \<or> birth > 2020 then (Error bad_request, db)
                    else (case getCountryWithAlpha2Code x (js_get data (js ''country'')) of
                            None \<Rightarrow> (Error bad_request, db)
                          | Some country_found \<Rightarrow>
                              completeUser_store x f i data data_phone birth country_found db)))"

section \<open>getUser\<close>

text \<open>
  The document as the object the application sees: every path of the schema, null where
  the schema's default null still stands.
\<close>

definition opt_str :: "jsstring option \<Rightarrow> jsval" where
  "opt_str v = (case v of None \<Rightarrow> JNull | Some s \<Rightarrow> JStr s)"

definition opt_num :: "int option \<Rightarrow> jsval" where
  "opt_num v = (case v of None \<Rightarrow> JNull | Some n \<Rightarrow> JNum n)"

definition user_object :: "user \<Rightarrow> (jsstring \<times> jsval) list" where
  "user_object u =
     [(js ''_id'', JStr (user_id u)),
      (js ''email'', JStr (email u)),
      (js ''password'', JStr (password u)),
      (js ''agreement_approved'', JBool (agreement_approved u)),
      (js ''completed'', JBool (completed u)),
      (js ''country'', opt_str (country u)),
      (js ''name'', opt_str (name u)),
      (js ''phone'', opt_str (phone u)),
      (js ''gender'', opt_str (gender u)),
      (js ''birth_year'', opt_num (birth_year u)),
      (js ''city'', opt_str (city u)),
      (js ''town'', opt_str (town u)),
      (js ''information'', JObj (information u)),
      (js ''paid_campaigns'', JArr (paid_campaigns u)),
      (js ''campaigns'', JArr (campaigns u)),
      (js ''payment_number'', opt_str (payment_number u)),
      (js ''credit'', JNum (credit u)),
      (js ''waiting_credit'', JNum (waiting_credit u)),
      (js ''overall_credit'', JNum (overall_credit u)),
      (js ''invitor'', opt_str (invitor u)),
      (js ''password_reset_code'', opt_str (password_reset_code u)),
      (js ''password_reset_last_date'', opt_num (password_reset_last_date u))]"

definition sensitive_fields :: "jsstring list" where
  "sensitive_fields =
     [js ''password'', js ''password_reset_code'', js ''password_reset_last_date'']"

text \<open>
  Modelled from the spec: \<open>functions/getUser.js\<close> is required by the model file and is
  not among the sources. The spec describes it as the sanitizer that strips the sensitive
  fields before a user object is returned to a caller, removing the password hash and the
  reset codes. It names no other field and no way to fail on a document, so the model
  removes those three paths and always succeeds.
\<close>

definition getUser :: "user \<Rightarrow> jsval" where
  "getUser u = JObj (filter (\<lambda>kv. fst kv \<notin> set sensitive_fields) (user_object u))"

text \<open>
  \<open>getUser(user, (err, user) => { if (err) return callback(err); return callback(null, user); })\<close>:
  the invocations of \<open>callback\<close> this makes. Without a document they are the
  parameter \<open>getUser_absent\<close>.
\<close>

definition getUser_then_callback :: "ext \<Rightarrow> user option \<Rightarrow> jsval outcome list" where
  "getUser_then_callback x found =
     (case found of None \<Rightarrow> getUser_absent x | Some u \<Rightarrow> [Success (getUser u)])"

section \<open>findUser\<close>

definition erkek :: jsstring where
  "erkek = js ''erkek''"

definition kadin :: jsstring where
  "kadin = js ''kad'' @ [0x131] @ js ''n''"

text \<open>
  The arguments are the two strings of a login; an empty string is the falsy one. The
  result lists the invocations of \<open>callback\<close> in order, because one path of the source
  invokes it and goes on. A rejected \<open>findOne\<close> has no handler, so nothing is invoked.
\<close>

definition findUser ::
  "ext \<Rightarrow> faults \<Rightarrow> jsstring \<Rightarrow> jsstring \<Rightarrow> db \<Rightarrow> jsval outcome list \<times> db" where
  "findUser x f email_arg password_arg db =
     (if email_arg = [] \<or> password_arg = [] \<or> \<not> isEmail x email_arg
      then ([Error bad_request], db)
      else case findOne f db (trim email_arg) of
        None \<Rightarrow> ([], db)
      | Some None \<Rightarrow> ([Error document_not_found], db)
      | Some (Some u) \<Rightarrow>
          if \<not> verifyPassword x (trim password_arg) (password u)
          then ([Error password_verification], db)
          else if gender u \<noteq> None \<and> gender u \<noteq> Some []
                  \<and> (gender u = Some erkek \<or> gender u = Some kadin)
          then (case findByIdAndUpdate f db (ObjectId x (user_id u))
                       (\<lambda>d. d\<lparr>gender := Some (if gender u = Some erkek
                                               then js ''male'' else js ''female'')\<rparr>) True of
                  ((err, updated), db') \<Rightarrow>
                    ((if err then [Error database_error] else [])
                       @ getUser_then_callback x updated, db'))
          else (getUser_then_callback x (Some u), db))"

section \<open>createUser\<close>

text \<open>
  \<open>save\<close> on a new document. The unique indexes on \<open>email\<close> and \<open>_id\<close> answer a
  duplicate with the error of code 11000; any other failure has another code or none. The
  pre-save hook replaces the password by its hash. The validators of the schema (an email
  and a password that are present, a password of at least six code units) hold of every
  document \<open>createUser\<close> saves, because it has checked them itself.
\<close>

datatype save_error = Code_11000 | Other_failure

definition save :: "ext \<Rightarrow> faults \<Rightarrow> db \<Rightarrow> user \<Rightarrow> (save_error + user) \<times> db" where
  "save x f db doc =
     (if save_fails f then (Inl Other_failure, db)
      else if \<exists>u \<in> set db. email u = email doc \<or> user_id u = user_id doc
      then (Inl Code_11000, db)
      else (Inr (doc\<lparr>password := hashPassword x (password doc)\<rparr>),
            db @ [doc\<lparr>password := hashPassword x (password doc)\<rparr>]))"

text \<open>
  \<open>new User(newUserData)\<close>: the four paths given, the schema's defaults elsewhere, and a
  fresh \<open>_id\<close>, which is an input of the model.
\<close>

definition new_User :: "oid \<Rightarrow> jsstring \<Rightarrow> jsstring \<Rightarrow> jsstring option \<Rightarrow> user" where
  "new_User new_id e p code_id =
     \<lparr>user_id = new_id, email = e, password = p, agreement_approved = True,
      completed = False, country = None, name = None, phone = None, gender = None,
      birth_year = None, city = None, town = None, information = [],
      paid_campaigns = [], campaigns = [], payment_number = None, credit = 0,
      waiting_credit = 0, overall_credit = 0, invitor = code_id,
      password_reset_code = None, password_reset_last_date = None\<rparr>"

text \<open>
  The \<open>invitor\<close> of the new document:
  \<open>data.code && validator.isMongoId(data.code.toString()) ? data.code.toString() : null\<close>.
  \<open>None\<close> is the TypeError of a code that cannot be converted, \<open>Some None\<close> is null.
\<close>

definition invitor_of :: "ext \<Rightarrow> jsval \<Rightarrow> jsstring option option" where
  "invitor_of x data =
     (if truthy (js_get data (js ''code''))
      then (case ToString x (js_get data (js ''code'')) of
              None \<Rightarrow> None
            | Some s \<Rightarrow> Some (if isMongoId x s then Some s else None))
      else Some None)"

definition createUser ::
  "ext \<Rightarrow> faults \<Rightarrow> oid \<Rightarrow> jsval \<Rightarrow> db \<Rightarrow> jsval outcome \<times> db" where
  "createUser x f new_id data db =
     (if \<not> truthy data \<or> typeof data \<noteq> T_object
         \<or> \<not> truthy (js_get data (js ''email'')) \<or> \<not> truthy (js_get data (js ''password''))
         \<or> typeof (js_get data (js ''email'')) \<noteq> T_string
         \<or> typeof (js_get data (js ''password'')) \<noteq> T_string
      then (Error bad_request, db)
      else if \<not> isEmail x (str (js_get data (js ''email'')))
      then (Error email_validation, db)
      else if length (str (js_get data (js ''password''))) < 6
      then (Error password_length, db)
      else (case invitor_of x data of
              None \<Rightarrow> (TypeError, db)
            | Some code_id \<Rightarrow>
                (case save x f db
                        (new_User new_id
                           (str (js_get data (js ''email'')))
                           (str (js_get data (js ''password'')))
                           code_id) of
                   (Inl Code_11000, db') \<Rightarrow> (Error email_duplication, db')
                 | (Inl Other_failure, db') \<Rightarrow> (Error database_error, db')
                 | (Inr saved, db') \<Rightarrow> (Success (getUser saved), db'))))"

section \<open>updateUser\<close>

text \<open>
  The fields \<open>updateUser\<close> writes with \<open>$set\<close>, from the payload and the document
  \<open>u\<close> read before. The phone, the city and the town are written as the payload has
  them, so the database library casts them to the path's type String; \<open>None\<close> is a
  cast that fails, which the update reports as its error. Whether the phone of the payload
  is taken is \<open>data.phone && validator.isMobilePhone(data.phone.toString())\<close>, where
  \<open>None\<close> is the TypeError of a phone that cannot be converted.
\<close>

definition updateUser_name :: "jsval \<Rightarrow> user \<Rightarrow> jsstring option" where
  "updateUser_name data u =
     (if truthy (js_get data (js ''name'')) \<and> typeof (js_get data (js ''name'')) = T_string
      then Some (str (js_get data (js ''name''))) else name u)"

definition updateUser_takes_phone :: "ext \<Rightarrow> jsval \<Rightarrow> bool option" where
  "updateUser_takes_phone x data =
     (if truthy (js_get data (js ''phone''))
      then map_option (isMobilePhone x) (ToString x (js_get data (js ''phone'')))
      else Some False)"

definition updateUser_phone :: "ext \<Rightarrow> jsval \<Rightarrow> user \<Rightarrow> bool \<Rightarrow> jsstring option option" where
  "updateUser_phone x data u takes =
     (if takes then map_option Some (castString x (js_get data (js ''phone'')))
      else Some (phone u))"

definition updateUser ::
  "ext \<Rightarrow> faults \<Rightarrow> jsstring \<Rightarrow> jsval \<Rightarrow> db \<Rightarrow> unit outcome \<times> db" where
  "updateUser x f i data db =
     (if i = [] \<or> \<not> isMongoId x i \<or> \<not> truthy data \<or> typeof data \<noteq> T_string
      then (Error bad_request, db)
      else case findById f db (ObjectId x i) of
        (False, Some u) \<Rightarrow>
          if truthy (js_get data (js ''city'')) \<and> truthy (js_get data (js ''town''))
          then
            if \<not> validateCityAndTown x (country u) data then (Error bad_request, db)
            else (case updateUser_takes_phone x data of
                    None \<Rightarrow> (TypeError, db)
                  | Some takes \<Rightarrow>
                      (case (updateUser_phone x data u takes,
                             castString x (js_get data (js ''city'')),
                             castString x (js_get data (js ''town''))) of
                         (Some new_phone, Some new_city, Some new_town) \<Rightarrow>
                           (case findByIdAndUpdate f db (ObjectId x i)
                                   (\<lambda>d. d\<lparr>name := updateUser_name data u, phone := new_phone,
                                          city := Some new_city, town := Some new_town\<rparr>)
                                   False of
                              ((err, _), db') \<Rightarrow>
                                if err then (Error database_error, db') else (Success (), db'))
                       | _ \<Rightarrow> (Error database_error, db)))
          else (case updateUser_takes_phone x data of
                  None \<Rightarrow> (TypeError, db)
                | Some takes \<Rightarrow>
                    (case updateUser_phone x data u takes of
                       Some new_phone \<Rightarrow>
                         (case findByIdAndUpdate f db (ObjectId x i)
                                 (\<lambda>d. d\<lparr>name := updateUser_name data u, phone := new_phone\<rparr>)
                                 False of
                            ((err, _), db') \<Rightarrow>
                              if err then (Error database_error, db') else (Success (), db'))
                     | None \<Rightarrow> (Error database_error, db)))
      | _ \<Rightarrow> (Error document_not_found, db))"

section \<open>The checks of completeUser, as the specification lists them\<close>

text \<open>
  The eight checks of the specification, each as a predicate that holds when the check
  passes, and the error the specification gives it.
\<close>

definition id_payload_ok :: "ext \<Rightarrow> jsstring \<Rightarrow> jsval \<Rightarrow> bool" where
  "id_payload_ok x i data \<longleftrightarrow>
     i \<noteq> [] \<and> isMongoId x i \<and> truthy data \<and> typeof data = T_object"

definition name_ok :: "jsval \<Rightarrow> bool" where
  "name_ok data = (case js_get data (js ''name'') of JStr s \<Rightarrow> s \<noteq> [] | _ \<Rightarrow> False)"

definition stripped_phone :: "jsval \<Rightarrow> jsstring" where
  "stripped_phone data = filter (\<lambda>c. c \<noteq> 0x20) (str (js_get data (js ''phone'')))"

definition phone_ok :: "ext \<Rightarrow> jsval \<Rightarrow> bool" where
  "phone_ok x data =
     (case js_get data (js ''phone'') of
        JStr s \<Rightarrow> stripped_phone data \<noteq> [] \<and> isMobilePhone x (stripped_phone data)
      | _ \<Rightarrow> False)"

definition gender_ok :: "jsval \<Rightarrow> bool" where
  "gender_ok data \<longleftrightarrow>
     js_get data (js ''gender'') \<in>
       JStr ` {js ''male'', js ''female'', js ''other'', js ''not_specified''}"

definition birth_year_ok :: "ext \<Rightarrow> jsval \<Rightarrow> bool" where
  "birth_year_ok x data =
     (case parseInt x (js_get data (js ''birth_year'')) of
        Some (Some n) \<Rightarrow> 1920 \<le> n \<and> n \<le> 2020
      | _ \<Rightarrow> False)"

text \<open>
  The integer the birth year parses to, where it does, and whether the birth year check
  throws: the value is truthy, so that \<open>parseInt\<close> is called, and cannot be converted
  to a string.
\<close>

definition parsed_birth_year :: "ext \<Rightarrow> jsval \<Rightarrow> int" where
  "parsed_birth_year x data =
     (case parseInt x (js_get data (js ''birth_year'')) of Some (Some n) \<Rightarrow> n | _ \<Rightarrow> 0)"

definition birth_year_throws :: "ext \<Rightarrow> jsval \<Rightarrow> bool" where
  "birth_year_throws x data \<longleftrightarrow>
     truthy (js_get data (js ''birth_year''))
     \<and> parseInt x (js_get data (js ''birth_year'')) = None"

definition country_ok :: "ext \<Rightarrow> jsval \<Rightarrow> bool" where
  "country_ok x data \<longleftrightarrow> getCountryWithAlpha2Code x (js_get data (js ''country'')) \<noteq> None"







text \<open>
  A payload whose phone the source can strip: absent or falsy, or a string. On any other
  phone \<open>split\<close> throws. \<open>completeUser\<close> throws in two places: at the phone, which
  it reaches when the first two checks have passed, and at the birth year, which it reaches
  when the first four have.
\<close>

definition phone_strippable :: "jsval \<Rightarrow> bool" where
  "phone_strippable data \<longleftrightarrow>
     \<not> truthy (js_get data (js ''phone'')) \<or> typeof (js_get data (js ''phone'')) = T_string"


section \<open>The frame of updateUser\<close>

text \<open>
  Two documents that agree on every field other than name, phone, city and town; and
  the relation between a document before and after \<open>updateUser\<close> on the identifier
  \<open>target\<close>: the fields outside the profile agree, and a document with another
  identifier is the same.
\<close>

definition same_outside_profile :: "user \<Rightarrow> user \<Rightarrow> bool" where
  "same_outside_profile d d' \<longleftrightarrow>
     user_id d' = user_id d \<and> email d' = email d \<and> password d' = password d
     \<and> completed d' = completed d \<and> agreement_approved d' = agreement_approved d
     \<and> country d' = country d \<and> birth_year d' = birth_year d \<and> gender d' = gender d
     \<and> information d' = information d \<and> campaigns d' = campaigns d
     \<and> paid_campaigns d' = paid_campaigns d \<and> credit d' = credit d
     \<and> waiting_credit d' = waiting_credit d \<and> overall_credit d' = overall_credit d
     \<and> invitor d' = invitor d \<and> payment_number d' = payment_number d
     \<and> password_reset_code d' = password_reset_code d
     \<and> password_reset_last_date d' = password_reset_last_date d"

definition updateUser_frame_rel :: "oid \<Rightarrow> user \<Rightarrow> user \<Rightarrow> bool" where
  "updateUser_frame_rel target d d' \<longleftrightarrow>
     same_outside_profile d d' \<and> (user_id d \<noteq> target \<longrightarrow> d' = d)"

section \<open>A sample environment\<close>

text \<open>
  Concrete instances of the parameters and of the failure flags, a few accounts and a few
  payloads, on which the theorems below are instantiated.
\<close>

definition no_faults :: faults where
  "no_faults = \<lparr>findOne_fails = False, findById_fails = False,
                 findByIdAndUpdate_fails = False, save_fails = False\<rparr>"

definition sample_ext :: ext where
  "sample_ext =
     \<lparr>isEmail = (\<lambda>s. 0x40 \<in> set s \<and> trim s = s),
      isMongoId = (\<lambda>s. length s = 24 \<and> list_all (is_digit 16) s),
      isMobilePhone = (\<lambda>s. length s = 10 \<and> list_all (is_digit 10) s),
      ObjectId = (\<lambda>s. s),
      castString = (\<lambda>v. case v of JStr s \<Rightarrow> Some s | _ \<Rightarrow> None),
      getCountryWithAlpha2Code =
        (\<lambda>v. if v = JStr (js ''US'') then Some \<lparr>alpha2_code = js ''US''\<rparr> else None),
      validateCityAndTown = (\<lambda>c d. True),
      hashPassword = (\<lambda>p. 0x23 # p),
      verifyPassword = (\<lambda>p h. h = 0x23 # p),
      getUser_absent = [Error document_not_found],
      Number_toString = (\<lambda>n. js ''1e+21'')\<rparr>"

definition sample_id :: jsstring where
  "sample_id = js ''5f74c3442b4e90001c72b747''"

definition sample_user :: user where
  "sample_user = new_User sample_id (js ''a@b.com'') (0x23 # js ''secret'') None"

definition sample_payload :: "jsval \<Rightarrow> jsval" where
  "sample_payload birth =
     JObj [(js ''name'', JStr (js ''A'')), (js ''phone'', JStr (js ''555 123 4567'')),
           (js ''gender'', JStr (js ''male'')), (js ''birth_year'', birth),
           (js ''country'', JStr (js ''US''))]"



definition completed_user :: user where
  "completed_user = sample_user\<lparr>completed := True\<rparr>"

definition legacy_user :: user where
  "legacy_user = sample_user\<lparr>gender := Some erkek\<rparr>"

definition update_fails :: faults where
  "update_fails = no_faults\<lparr>findByIdAndUpdate_fails := True\<rparr>"

definition sample_email :: jsstring where
  "sample_email = js ''a@b.com''"

definition sample_password :: jsstring where
  "sample_password = js ''secret''"

definition kadin_user :: user where
  "kadin_user = sample_user\<lparr>gender := Some kadin\<rparr>"

definition signup_payload :: "jsstring \<Rightarrow> jsval" where
  "signup_payload p = JObj [(js ''email'', JStr sample_email), (js ''password'', JStr p)]"

definition save_fails_only :: faults where
  "save_fails_only = no_faults\<lparr>save_fails := True\<rparr>"

definition city_only_payload :: jsval where
  "city_only_payload = JObj [(js ''city'', JStr (js ''Ankara'')), (js ''name'', JStr (js ''B''))]"

definition second_user :: user where
  "second_user = new_User (js ''5f74c3442b4e90001c72b748'') (js ''c@d.com'') (0x23 # js ''hunter22'') None"




section \<open>Facts about the model\<close>

lemma parseInt_falsy:
  "\<not> truthy v \<Longrightarrow> parseInt x v = Some None \<or> parseInt x v = Some (Some 0)"
  by (cases v)
     (simp_all add: parseInt_def parseInt_string_def js_def is_whitespace_def is_digit_def
        digit_value_def digits_value_def int_digits_def digit_char_def)

lemma parseInt_truthy: "parseInt x v = Some (Some n) \<Longrightarrow> n \<noteq> 0 \<Longrightarrow> truthy v"
  using parseInt_falsy [of v x] by auto

lemma gender_truthy: "v \<in> set allowedGenderValues \<Longrightarrow> truthy v"
  by (auto simp: allowedGenderValues_def js_def)

lemma gender_ok_iff: "gender_ok data \<longleftrightarrow> js_get data (js ''gender'') \<in> set allowedGenderValues"
  by (auto simp: gender_ok_def allowedGenderValues_def)

lemma name_ok_iff:
  "name_ok data \<longleftrightarrow>
     truthy (js_get data (js ''name'')) \<and> typeof (js_get data (js ''name'')) = T_string"
  by (cases "js_get data (js ''name'')") (simp_all add: name_ok_def)

lemma phone_ok_strip:
  assumes "phone_ok x data"
  shows "strip_phone (js_get data (js ''phone'')) = Some (JStr (stripped_phone data))"
    and "stripped_phone data \<noteq> []" and "isMobilePhone x (stripped_phone data)"
  using assms
  by (cases "js_get data (js ''phone'')"; auto simp: phone_ok_def stripped_phone_def)+

lemma birth_year_ok_parsed:
  "birth_year_ok x data \<Longrightarrow>
   truthy (js_get data (js ''birth_year''))
   \<and> parseInt x (js_get data (js ''birth_year'')) = Some (Some (parsed_birth_year x data))
   \<and> 1920 \<le> parsed_birth_year x data \<and> parsed_birth_year x data \<le> 2020"
  by (auto simp: birth_year_ok_def parsed_birth_year_def split: option.splits
        dest: parseInt_truthy)

lemma birth_year_not_ok:
  "\<not> birth_year_ok x data \<Longrightarrow> \<not> birth_year_throws x data \<Longrightarrow>
   \<not> truthy (js_get data (js ''birth_year''))
   \<or> parseInt x (js_get data (js ''birth_year'')) = Some None
   \<or> (\<exists>n. parseInt x (js_get data (js ''birth_year'')) = Some (Some n)
           \<and> (n < 1920 \<or> n > 2020))"
  by (auto simp: birth_year_ok_def birth_year_throws_def split: option.splits)

lemma birth_year_ok_not_throws: "birth_year_ok x data \<Longrightarrow> \<not> birth_year_throws x data"
  by (auto simp: birth_year_ok_def birth_year_throws_def split: option.splits)

lemma find_update_first:
  "(\<And>u. user_id (upd u) = user_id u) \<Longrightarrow>
   find (\<lambda>u. user_id u = i) (update_first i upd db)
     = map_option upd (find (\<lambda>u. user_id u = i) db)"
  by (induction db) auto

lemma completeUser_set_id: "user_id (completeUser_set data p n c d) = user_id d"
  by (simp add: completeUser_set_def)

lemma completeUser_at_birth_year:
  assumes "id_payload_ok x i data" "name_ok data" "phone_ok x data" "gender_ok data"
  shows "completeUser x f i data db =
     (if \<not> truthy (js_get data (js ''birth_year'')) then (Error bad_request, db)
      else (case parseInt x (js_get data (js ''birth_year'')) of
              None \<Rightarrow> (TypeError, db)
            | Some None \<Rightarrow> (Error bad_request, db)
            | Some (Some birth) \<Rightarrow>
                if birth < 1920 \<or> birth > 2020 then (Error bad_request, db)
                else (case getCountryWithAlpha2Code x (js_get data (js ''country'')) of
                        None \<Rightarrow> (Error bad_request, db)
                      | Some c \<Rightarrow>
                          completeUser_store x f i data (JStr (stripped_phone data)) birth c db)))"
  unfolding completeUser_def
  using assms(1,2,4) phone_ok_strip [OF assms(3)] gender_truthy [of "js_get data (js ''gender'')"]
  by (simp add: id_payload_ok_def name_ok_iff gender_ok_iff)

lemma completeUser_after_gender:
  assumes "id_payload_ok x i data" "name_ok data" "phone_ok x data" "gender_ok data"
  shows "completeUser x f i data db =
     (if birth_year_throws x data then (TypeError, db)
      else if birth_year_ok x data then
        (case getCountryWithAlpha2Code x (js_get data (js ''country'')) of
           None \<Rightarrow> (Error bad_request, db)
         | Some c \<Rightarrow>
             completeUser_store x f i data (JStr (stripped_phone data))
               (parsed_birth_year x data) c db)
      else (Error bad_request, db))"
proof (cases "birth_year_throws x data")
  case True
  then show ?thesis
    by (simp add: completeUser_at_birth_year [OF assms] birth_year_throws_def)
next
  case no: False
  show ?thesis
  proof (cases "birth_year_ok x data")
    case True
    then show ?thesis
      using birth_year_ok_parsed [OF True] no
      by (simp add: completeUser_at_birth_year [OF assms])
  next
    case False
    then show ?thesis
      using birth_year_not_ok [OF False no] no
      by (auto simp: completeUser_at_birth_year [OF assms])
  qed
qed

lemma completeUser_store_fresh:
  assumes "\<not> findById_fails f" "\<not> findByIdAndUpdate_fails f"
    and "find (\<lambda>u. user_id u = ObjectId x i) db = Some u" "\<not> completed u"
  shows "completeUser_store x f i data p n c db =
           (Success (), update_first (ObjectId x i) (completeUser_set data p n c) db)"
  using assms by (simp add: completeUser_store_def findById_def findByIdAndUpdate_def)

lemma completeUser_store_cases:
  "completeUser_store x f i data p n c db =
     (if findById_fails f then (Error document_not_found, db)
      else case find (\<lambda>d. user_id d = ObjectId x i) db of
        None \<Rightarrow> (Error document_not_found, db)
      | Some u \<Rightarrow>
          if completed u then (Error already_authenticated, db)
          else if findByIdAndUpdate_fails f then (Error database_error, db)
          else (Success (), update_first (ObjectId x i) (completeUser_set data p n c) db))"
  by (simp add: completeUser_store_def findById_def findByIdAndUpdate_def split: option.splits)

lemma completeUser_bad_id:
  "\<not> id_payload_ok x i data \<Longrightarrow> completeUser x f i data db = (Error bad_request, db)"
  by (auto simp: completeUser_def id_payload_ok_def)

lemma completeUser_bad_name:
  "id_payload_ok x i data \<Longrightarrow> \<not> name_ok data \<Longrightarrow>
   completeUser x f i data db = (Error bad_request, db)"
  by (auto simp: completeUser_def id_payload_ok_def name_ok_iff)

lemma completeUser_bad_id_or_name:
  "\<not> (id_payload_ok x i data \<and> name_ok data) \<Longrightarrow>
   completeUser x f i data db = (Error bad_request, db)"
  using completeUser_bad_id [of x i data f db] completeUser_bad_name [of x i data f db]
  by blast

lemma completeUser_bad_phone:
  "id_payload_ok x i data \<Longrightarrow> name_ok data \<Longrightarrow> phone_strippable data \<Longrightarrow> \<not> phone_ok x data \<Longrightarrow>
   completeUser x f i data db = (Error phone_validation, db)"
  by (cases "js_get data (js ''phone'')")
     (auto simp: completeUser_def id_payload_ok_def name_ok_iff phone_strippable_def
        phone_ok_def stripped_phone_def)

lemma completeUser_phone_throws:
  "id_payload_ok x i data \<Longrightarrow> name_ok data \<Longrightarrow> \<not> phone_strippable data \<Longrightarrow>
   completeUser x f i data db = (TypeError, db)"
  by (cases "js_get data (js ''phone'')")
     (auto simp: completeUser_def id_payload_ok_def name_ok_iff phone_strippable_def)

lemma completeUser_bad_gender:
  "id_payload_ok x i data \<Longrightarrow> name_ok data \<Longrightarrow> phone_ok x data \<Longrightarrow> \<not> gender_ok data \<Longrightarrow>
   completeUser x f i data db = (Error bad_request, db)"
  using phone_ok_strip [of x data]
  by (auto simp: completeUser_def id_payload_ok_def name_ok_iff gender_ok_iff)

lemma completeUser_early:
  assumes "phone_strippable data"
    and "\<not> (id_payload_ok x i data \<and> name_ok data \<and> phone_ok x data \<and> gender_ok data)"
  shows "completeUser x f i data db =
     (Error (if id_payload_ok x i data \<and> name_ok data \<and> \<not> phone_ok x data
             then phone_validation else bad_request), db)"
  using assms
  by (cases "id_payload_ok x i data"; cases "name_ok data"; cases "phone_ok x data")
     (simp_all add: completeUser_bad_id completeUser_bad_name completeUser_bad_phone
        completeUser_bad_gender)

lemma completeUser_unchanged_or_success:
  "snd (completeUser x f i data db) = db \<and> fst (completeUser x f i data db) \<noteq> Success ()
   \<or> (\<exists>u p n c. find (\<lambda>d. user_id d = ObjectId x i) db = Some u \<and> \<not> completed u
        \<and> completeUser x f i data db
            = (Success (), update_first (ObjectId x i) (completeUser_set data p n c) db))"
proof (cases "phone_strippable data")
  case False
  then show ?thesis
    using completeUser_phone_throws [of x i data f db] completeUser_bad_id_or_name [of x i data f db]
    by (cases "id_payload_ok x i data \<and> name_ok data") simp_all
next
  case s: True
  show ?thesis
  proof (cases "id_payload_ok x i data \<and> name_ok data \<and> phone_ok x data \<and> gender_ok data")
    case False
    then show ?thesis
      by (simp add: completeUser_early [OF s])
  next
    case True
    then show ?thesis
      by (auto simp: completeUser_after_gender completeUser_store_cases split: option.splits)
  qed
qed

lemma sample_checks:
  "id_payload_ok sample_ext sample_id (sample_payload b)"
  "name_ok (sample_payload b)"
  "phone_ok sample_ext (sample_payload b)"
  "gender_ok (sample_payload b)"
  "country_ok sample_ext (sample_payload b)"
  "js_get (sample_payload b) (js ''birth_year'') = b"
  by (simp_all add: id_payload_ok_def name_ok_def phone_ok_def gender_ok_def country_ok_def
       stripped_phone_def sample_ext_def sample_id_def sample_payload_def js_def
       is_digit_def digit_value_def)

lemma sample_parse:
  "parseInt x (JStr (js ''1919'')) = Some (Some 1919)"
  "parseInt x (JNum 2021) = Some (Some 2021)"
  "parseInt x (JStr (js ''1920'')) = Some (Some 1920)"
  "parseInt x (JNum 2020) = Some (Some 2020)"
  by (simp_all add: parseInt_def parseInt_string_def js_def is_whitespace_def is_digit_def
        digit_value_def digits_value_def int_digits_def digit_char_def)

lemma sample_db:
  "find (\<lambda>d. user_id d = ObjectId sample_ext sample_id) [sample_user] = Some sample_user"
  "\<not> completed sample_user"
  "\<not> findById_fails no_faults" "\<not> findByIdAndUpdate_fails no_faults"
  by (simp_all add: sample_ext_def sample_user_def new_User_def no_faults_def)

lemma completeUser_valid:
  assumes "id_payload_ok x i data" "name_ok data" "phone_ok x data" "gender_ok data"
    and "birth_year_ok x data" "country_ok x data"
    and "\<not> findById_fails f" "\<not> findByIdAndUpdate_fails f"
    and "find (\<lambda>d. user_id d = ObjectId x i) db = Some u" "\<not> completed u"
  shows "fst (completeUser x f i data db) = Success ()"
  using assms(5-) birth_year_ok_not_throws [OF assms(5)]
  by (auto simp: completeUser_after_gender [OF assms(1-4)] completeUser_store_cases
        country_ok_def)

lemma sample_parse_1995: "parseInt x (JNum 1995) = Some (Some 1995)"
  by (simp add: parseInt_def parseInt_string_def js_def is_whitespace_def is_digit_def
        digit_value_def digits_value_def int_digits_def digit_char_def)

lemma sample_birth_year_ok: "birth_year_ok sample_ext (sample_payload (JNum 1995))"
  by (simp add: birth_year_ok_def sample_checks(6) sample_parse_1995)




lemma completed_db:
  "find (\<lambda>d. user_id d = ObjectId sample_ext sample_id) [completed_user] = Some completed_user"
  "completed completed_user"
  by (simp_all add: sample_ext_def sample_user_def new_User_def completed_user_def)

lemma legacy_nonempty: "erkek \<noteq> []" "kadin \<noteq> []" "erkek \<noteq> kadin"
  by (simp_all add: erkek_def kadin_def js_def)

lemma findUser_verified:
  assumes "email_arg \<noteq> []" "password_arg \<noteq> []" "isEmail x email_arg" "\<not> findOne_fails f"
    and "find (\<lambda>d. email d = trim email_arg) db = Some u"
    and "verifyPassword x (trim password_arg) (password u)"
  shows "findUser x f email_arg password_arg db =
     (if gender u = Some erkek \<or> gender u = Some kadin
      then (case findByIdAndUpdate f db (ObjectId x (user_id u))
                   (\<lambda>d. d\<lparr>gender := Some (if gender u = Some erkek
                                           then js ''male'' else js ''female'')\<rparr>) True of
              ((err, updated), db') \<Rightarrow>
                ((if err then [Error database_error] else [])
                   @ getUser_then_callback x updated, db'))
      else ([Success (getUser u)], db))"
  using assms legacy_nonempty
  by (auto simp: findUser_def findOne_def getUser_then_callback_def)

lemma legacy_login:
  "sample_email \<noteq> []" "sample_password \<noteq> []" "isEmail sample_ext sample_email"
  "find (\<lambda>d. email d = trim sample_email) [legacy_user] = Some legacy_user"
  "verifyPassword sample_ext (trim sample_password) (password legacy_user)"
  "gender legacy_user = Some erkek"
  "\<not> findOne_fails update_fails" "findByIdAndUpdate_fails update_fails"
  "\<not> findOne_fails no_faults" "\<not> findByIdAndUpdate_fails no_faults"
  by (simp_all add: sample_email_def sample_password_def sample_ext_def legacy_user_def
        sample_user_def new_User_def update_fails_def no_faults_def trim_def is_whitespace_def
        js_def)

lemma update_first_map:
  "distinct (map user_id db) \<Longrightarrow>
   update_first i upd db = map (\<lambda>d. if user_id d = i then upd d else d) db"
proof (induction db)
  case Nil
  then show ?case by simp
next
  case (Cons u us)
  show ?case
  proof (cases "user_id u = i")
    case True
    with Cons.prems have "i \<notin> user_id ` set us" by simp
    then have "\<forall>d \<in> set us. user_id d \<noteq> i" by blast
    then have "map (\<lambda>d. if user_id d = i then upd d else d) us = us"
      by (simp add: map_idI)
    with True show ?thesis by simp
  next
    case False
    with Cons show ?thesis by simp
  qed
qed

lemma find_Some_mem: "find P xs = Some y \<Longrightarrow> y \<in> set xs \<and> P y"
  by (induction xs) (auto split: if_splits)

lemma find_by_id_distinct:
  "distinct (map user_id db) \<Longrightarrow> u \<in> set db \<Longrightarrow> find (\<lambda>d. user_id d = user_id u) db = Some u"
  by (induction db) auto

lemma getUser_no_password: "\<not> has_field (getUser u) (js ''password'')"
  by (simp add: getUser_def user_object_def sensitive_fields_def js_def)

lemma findUser_unverified:
  assumes "find (\<lambda>d. email d = trim email_arg) db = Some u"
    and "findUser x f email_arg password_arg db = ([Success v], db')"
  shows "email_arg \<noteq> []" "password_arg \<noteq> []" "isEmail x email_arg" "\<not> findOne_fails f"
    "verifyPassword x (trim password_arg) (password u)"
  using assms by (auto simp: findUser_def findOne_def split: if_splits)

lemma findUser_changes_only_legacy:
  "snd (findUser x f email_arg password_arg db) \<noteq> db \<Longrightarrow>
   \<exists>w. find (\<lambda>d. email d = trim email_arg) db = Some w
       \<and> (gender w = Some erkek \<or> gender w = Some kadin)"
  by (auto simp: findUser_def findOne_def split: if_splits option.splits prod.splits)

lemma sample_login:
  "find (\<lambda>d. email d = trim sample_email) [sample_user] = Some sample_user"
  "verifyPassword sample_ext (trim sample_password) (password sample_user)"
  "gender sample_user = None"
  "find (\<lambda>d. email d = trim sample_email) [kadin_user] = Some kadin_user"
  "verifyPassword sample_ext (trim sample_password) (password kadin_user)"
  "gender kadin_user = Some kadin"
  by (simp_all add: sample_email_def sample_password_def sample_ext_def kadin_user_def
        sample_user_def new_User_def trim_def is_whitespace_def js_def)

lemma sample_wf:
  "distinct (map user_id [u])"
  "\<forall>d \<in> set [u]. ObjectId sample_ext (user_id d) = user_id d"
  by (simp_all add: sample_ext_def)

lemma sample_ObjectId: "ObjectId sample_ext s = s"
  by (simp add: sample_ext_def)

lemma sample_findUser:
  "findUser sample_ext no_faults sample_email sample_password [legacy_user]
     = ([Success (getUser (legacy_user\<lparr>gender := Some (js ''male'')\<rparr>))],
        [legacy_user\<lparr>gender := Some (js ''male'')\<rparr>])"
  "findUser sample_ext no_faults sample_email sample_password [kadin_user]
     = ([Success (getUser (kadin_user\<lparr>gender := Some (js ''female'')\<rparr>))],
        [kadin_user\<lparr>gender := Some (js ''female'')\<rparr>])"
  "findUser sample_ext no_faults sample_email sample_password [sample_user]
     = ([Success (getUser sample_user)], [sample_user])"
    apply (simp add: findUser_verified [OF legacy_login(1-3,9,4,5)] legacy_login(6,10)
             findByIdAndUpdate_def getUser_then_callback_def sample_ObjectId)
   apply (simp add: findUser_verified [OF legacy_login(1-3,9) sample_login(4,5)] sample_login(6)
            legacy_login(10) legacy_nonempty legacy_nonempty(3) [symmetric]
            findByIdAndUpdate_def getUser_then_callback_def sample_ObjectId)
  apply (simp add: findUser_verified [OF legacy_login(1-3,9) sample_login(1,2)] sample_login(3))
  done

lemma createUser_checked:
  assumes "truthy data" "typeof data = T_object"
    and "js_get data (js ''email'') = JStr e" "js_get data (js ''password'') = JStr p"
    and "e \<noteq> []" "isEmail x e" "6 \<le> length p"
  shows "createUser x f new_id data db =
     (case invitor_of x data of
        None \<Rightarrow> (TypeError, db)
      | Some code_id \<Rightarrow>
          (case save x f db (new_User new_id e p code_id) of
             (Inl Code_11000, db') \<Rightarrow> (Error email_duplication, db')
           | (Inl Other_failure, db') \<Rightarrow> (Error database_error, db')
           | (Inr saved, db') \<Rightarrow> (Success (getUser saved), db')))"
proof -
  have "p \<noteq> []" using assms(7) by auto
  then show ?thesis
    using assms by (simp add: createUser_def split: option.splits)
qed

lemma createUser_Success:
  assumes "createUser x f new_id data db = (Success v, db')"
  shows "\<exists>e p code_id. truthy data \<and> typeof data = T_object
           \<and> js_get data (js ''email'') = JStr e \<and> js_get data (js ''password'') = JStr p
           \<and> e \<noteq> [] \<and> isEmail x e \<and> 6 \<le> length p
           \<and> invitor_of x data = Some code_id"
proof -
  obtain e where e: "js_get data (js ''email'') = JStr e"
    using assms by (cases "js_get data (js ''email'')") (auto simp: createUser_def split: if_splits)
  obtain p where p: "js_get data (js ''password'') = JStr p"
    using assms by (cases "js_get data (js ''password'')") (auto simp: createUser_def split: if_splits)
  show ?thesis
    using assms by (auto simp: createUser_def e p split: if_splits option.splits)
qed

lemma signup_checks:
  "truthy (signup_payload p)" "typeof (signup_payload p) = T_object"
  "js_get (signup_payload p) (js ''email'') = JStr sample_email"
  "js_get (signup_payload p) (js ''password'') = JStr p"
  "invitor_of sample_ext (signup_payload p) = Some None"
  by (simp_all add: signup_payload_def invitor_of_def js_def)



lemma sample_hash: "hashPassword sample_ext p = 0x23 # p"
  by (simp add: sample_ext_def)

lemma signup_faults: "\<not> save_fails no_faults" "save_fails save_fails_only"
  by (simp_all add: no_faults_def save_fails_only_def)

lemma sample_user_email: "email sample_user = sample_email"
  by (simp add: sample_user_def new_User_def sample_email_def)

lemma sample_password_length: "6 \<le> length sample_password" "length (js ''12345'') = 5"
  by (simp_all add: sample_password_def js_def)






lemma update_first_rel:
  assumes "\<And>d. R d d" "\<And>d. user_id d = i \<Longrightarrow> R d (upd d)"
  shows "list_all2 R db (update_first i upd db)"
  by (induction db) (auto simp: assms list_all2_refl)

lemma frame_rel_refl: "updateUser_frame_rel t d d"
  by (simp add: updateUser_frame_rel_def same_outside_profile_def)

lemma frame_rel_name_phone:
  "user_id d = t \<Longrightarrow> updateUser_frame_rel t d (d\<lparr>name := n, phone := p\<rparr>)"
  by (simp add: updateUser_frame_rel_def same_outside_profile_def)

lemma frame_rel_profile:
  "user_id d = t \<Longrightarrow> updateUser_frame_rel t d (d\<lparr>name := n, phone := p, city := c, town := w\<rparr>)"
  by (simp add: updateUser_frame_rel_def same_outside_profile_def)

lemma updateUser_unchanged_unless_success:
  "fst (updateUser x f i data db) \<noteq> Success () \<Longrightarrow> snd (updateUser x f i data db) = db"
  by (auto simp: updateUser_def findById_def findByIdAndUpdate_def
        split: option.splits if_splits)

lemma updateUser_frame_all:
  "list_all2 (updateUser_frame_rel (ObjectId x i)) db (snd (updateUser x f i data db))"
  by (auto simp: updateUser_def findById_def findByIdAndUpdate_def list_all2_refl frame_rel_refl
        split: option.splits if_splits
        intro!: update_first_rel frame_rel_name_phone frame_rel_profile)

lemma updateUser_object_payload:
  "typeof data \<noteq> T_string \<Longrightarrow> updateUser x f i data db = (Error bad_request, db)"
  by (simp add: updateUser_def)

lemma updateUser_string_payload:
  "updateUser sample_ext no_faults sample_id (JStr (js ''B'')) [sample_user, second_user]
     = (Success (), [sample_user, second_user])"
  by (simp add: updateUser_def sample_checks(1) [unfolded id_payload_ok_def] findById_def
        findByIdAndUpdate_def no_faults_def sample_ObjectId updateUser_phone_def
        updateUser_takes_phone_def updateUser_name_def sample_user_def new_User_def js_def)



section \<open>The claims\<close>

text \<open>
  C1. \<open>completeUser\<close> is one-time. On an account that is already completed every call
  leaves the collection as it is and is not a success, and with a payload that passes the
  six payload checks and a lookup that does not fail it answers \<open>already_authenticated\<close>.
  A call that changes the collection or succeeds is a success on an account that was not
  completed and is completed afterwards; and after a successful call a second call with
  a valid payload answers \<open>already_authenticated\<close> and changes nothing.
\<close>

theorem completeUser_one_time:
  "(find (\<lambda>d. user_id d = ObjectId x i) db = Some u \<and> completed u \<longrightarrow>
      snd (completeUser x f i data db) = db
      \<and> fst (completeUser x f i data db) \<noteq> Success ()
      \<and> (id_payload_ok x i data \<and> name_ok data \<and> phone_ok x data \<and> gender_ok data
           \<and> birth_year_ok x data \<and> country_ok x data \<and> \<not> findById_fails f
         \<longrightarrow> completeUser x f i data db = (Error already_authenticated, db)))
   \<and> (snd (completeUser x f i data db) \<noteq> db \<or> fst (completeUser x f i data db) = Success ()
        \<longrightarrow> fst (completeUser x f i data db) = Success ()
          \<and> (\<exists>v v'. find (\<lambda>d. user_id d = ObjectId x i) db = Some v \<and> \<not> completed v
                \<and> find (\<lambda>d. user_id d = ObjectId x i) (snd (completeUser x f i data db)) = Some v'
                \<and> completed v'))
   \<and> (fst (completeUser x f i data db) = Success ()
        \<and> id_payload_ok x i data2 \<and> name_ok data2 \<and> phone_ok x data2 \<and> gender_ok data2
        \<and> birth_year_ok x data2 \<and> country_ok x data2 \<and> \<not> findById_fails f2
      \<longrightarrow> completeUser x f2 i data2 (snd (completeUser x f i data db))
            = (Error already_authenticated, snd (completeUser x f i data db)))"
proof -
  have done_before: "completeUser x g i d db0 = (Error already_authenticated, db0)"
    if "find (\<lambda>d. user_id d = ObjectId x i) db0 = Some w" "completed w"
      "id_payload_ok x i d" "name_ok d" "phone_ok x d" "gender_ok d"
      "birth_year_ok x d" "country_ok x d" "\<not> findById_fails g" for g d db0 w
    using that
    by (auto simp: completeUser_after_gender completeUser_store_cases country_ok_def
          birth_year_ok_not_throws)
  have changed: "\<exists>v v'. find (\<lambda>d. user_id d = ObjectId x i) db = Some v \<and> \<not> completed v
      \<and> find (\<lambda>d. user_id d = ObjectId x i) (snd (completeUser x f i data db)) = Some v'
      \<and> completed v' \<and> fst (completeUser x f i data db) = Success ()"
    if "snd (completeUser x f i data db) \<noteq> db \<or> fst (completeUser x f i data db) = Success ()"
  proof -
    from that completeUser_unchanged_or_success [of x f i data db]
    obtain v p n c where v: "find (\<lambda>d. user_id d = ObjectId x i) db = Some v" "\<not> completed v"
      "completeUser x f i data db
         = (Success (), update_first (ObjectId x i) (completeUser_set data p n c) db)"
      by auto
    have "find (\<lambda>d. user_id d = ObjectId x i) (snd (completeUser x f i data db))
            = Some (completeUser_set data p n c v)"
      by (simp add: v find_update_first completeUser_set_id)
    moreover have "completed (completeUser_set data p n c v)"
      by (simp add: completeUser_set_def)
    ultimately show ?thesis using v by auto
  qed
  have stays: "snd (completeUser x f i data db) = db \<and> fst (completeUser x f i data db) \<noteq> Success ()"
    if "find (\<lambda>d. user_id d = ObjectId x i) db = Some u" "completed u"
    using that changed by auto
  show ?thesis
    using done_before stays changed by (intro conjI impI) (blast+)
qed

text \<open>
  C1 on the sample account: the completed account is refused, and of two calls in a row
  the first succeeds and the second is refused.
\<close>

theorem completeUser_one_time_witness:
  "find (\<lambda>d. user_id d = ObjectId sample_ext sample_id) [completed_user] = Some completed_user
   \<and> completed completed_user
   \<and> completeUser sample_ext no_faults sample_id (sample_payload (JNum 1995)) [completed_user]
       = (Error already_authenticated, [completed_user])
   \<and> fst (completeUser sample_ext no_faults sample_id (sample_payload (JNum 1995)) [sample_user])
       = Success ()
   \<and> find (\<lambda>d. user_id d = ObjectId sample_ext sample_id) [sample_user] = Some sample_user
   \<and> \<not> completed sample_user
   \<and> completeUser sample_ext no_faults sample_id (sample_payload (JStr (js ''1920'')))
        (snd (completeUser sample_ext no_faults sample_id (sample_payload (JNum 1995)) [sample_user]))
       = (Error already_authenticated,
          snd (completeUser sample_ext no_faults sample_id (sample_payload (JNum 1995)) [sample_user]))"
proof -
  have first: "fst (completeUser sample_ext no_faults sample_id (sample_payload (JNum 1995))
                 [sample_user]) = Success ()"
    by (rule completeUser_valid [OF sample_checks(1-4) sample_birth_year_ok sample_checks(5)
          sample_db(3,4,1,2)])
  have by2: "birth_year_ok sample_ext (sample_payload (JStr (js ''1920'')))"
    by (simp add: birth_year_ok_def sample_checks(6) sample_parse)
  show ?thesis
    using completeUser_one_time [of sample_ext sample_id "[completed_user]" completed_user
            no_faults "sample_payload (JNum 1995)"]
      completeUser_one_time [of sample_ext sample_id "[sample_user]" sample_user
            no_faults "sample_payload (JNum 1995)" "sample_payload (JStr (js ''1920''))" no_faults]
    by (simp add: first by2 completed_db sample_db sample_checks sample_birth_year_ok
          del: find.simps)
qed

text \<open>
  C2, as the claim states it, fails: on an account with the legacy gender, when the
  normalization update fails, the callback is invoked with \<open>database_error\<close>.
\<close>

theorem findUser_normalization_failure_counterexample:
  "Error database_error
     \<in> set (fst (findUser sample_ext update_fails sample_email sample_password [legacy_user]))"
  by (simp add: findUser_verified [OF legacy_login(1-3,7,4,5)] legacy_login(6,8)
        findByIdAndUpdate_def)

text \<open>
  C2, amended. In \<open>findUser\<close>, when the stored gender is one of the two legacy values
  and the normalization update fails, the first invocation of the callback carries the
  error \<open>database_error\<close>, and the collection is left as it was.
\<close>

theorem findUser_normalization_failure:
  assumes "email_arg \<noteq> []" "password_arg \<noteq> []" "isEmail x email_arg" "\<not> findOne_fails f"
    and "find (\<lambda>d. email d = trim email_arg) db = Some u"
    and "verifyPassword x (trim password_arg) (password u)"
    and "gender u = Some erkek \<or> gender u = Some kadin"
    and "findByIdAndUpdate_fails f"
  shows "fst (findUser x f email_arg password_arg db) \<noteq> []
       \<and> hd (fst (findUser x f email_arg password_arg db)) = Error database_error
       \<and> snd (findUser x f email_arg password_arg db) = db"
  using assms(7,8)
  by (simp add: findUser_verified [OF assms(1-6)] findByIdAndUpdate_def)

text \<open>C2 on the sample account with the legacy gender and a failing update.\<close>

theorem findUser_normalization_failure_witness:
  "fst (findUser sample_ext update_fails sample_email sample_password [legacy_user]) \<noteq> []
   \<and> hd (fst (findUser sample_ext update_fails sample_email sample_password [legacy_user]))
       = Error database_error
   \<and> snd (findUser sample_ext update_fails sample_email sample_password [legacy_user])
       = [legacy_user]"
  using findUser_normalization_failure [OF legacy_login(1-3,7,4,5) _ legacy_login(8)]
    legacy_login(6)
  by simp

text \<open>
  C3. The claim expects \<open>updateUser\<close>, given the identifier of an existing account and
  a payload with a city and no town, to update name and phone and succeed. The source
  refuses every payload that is not a string, and a string has no city: whatever the
  payload, if it is not a string or if it supplies a city, the answer is \<open>bad_request\<close>
  and nothing is updated.
\<close>

theorem updateUser_rejects_object_payload:
  "(typeof data \<noteq> T_string \<longrightarrow> updateUser x f i data db = (Error bad_request, db))
   \<and> (js_get data (js ''city'') \<noteq> JUndefined
        \<longrightarrow> updateUser x f i data db = (Error bad_request, db))"
proof -
  have "typeof data \<noteq> T_string" if "js_get data (js ''city'') \<noteq> JUndefined"
    using that by (cases data) simp_all
  then show ?thesis
    by (auto simp: updateUser_object_payload)
qed

text \<open>
  C3 at the failing input: the object with a city and a name, on the identifier of the
  completed sample account, is answered with \<open>bad_request\<close> and the account is kept
  as it was.
\<close>

theorem updateUser_city_only_rejected:
  "typeof city_only_payload \<noteq> T_string
   \<and> js_get city_only_payload (js ''city'') \<noteq> JUndefined
   \<and> find (\<lambda>d. user_id d = ObjectId sample_ext sample_id) [completed_user] = Some completed_user
   \<and> updateUser sample_ext no_faults sample_id city_only_payload [completed_user]
       = (Error bad_request, [completed_user])"
  using updateUser_rejects_object_payload
          [of city_only_payload sample_ext no_faults sample_id "[completed_user]"]
  by (simp add: city_only_payload_def js_def completed_db del: find.simps)




text \<open>
  C5. In a collection whose identifiers are distinct and canonical, let a \<open>findUser\<close>
  call succeed on the account found by the trimmed email. If its stored gender is the
  legacy value erkek, the stored gender of that account, and of no other, is rewritten to
  male, and the value returned is the sanitized rewritten account; likewise the other
  legacy value is rewritten to female. If the stored gender is neither, nothing is
  rewritten. In every case the returned object has no password field.
\<close>

theorem findUser_legacy_gender:
  assumes "distinct (map user_id db)"
    and "\<forall>d \<in> set db. ObjectId x (user_id d) = user_id d"
    and "find (\<lambda>d. email d = trim email_arg) db = Some u"
    and "findUser x f email_arg password_arg db = ([Success v], db')"
  shows "(gender u = Some erkek \<longrightarrow>
            db' = map (\<lambda>d. if user_id d = user_id u then d\<lparr>gender := Some (js ''male'')\<rparr> else d) db
            \<and> v = getUser (u\<lparr>gender := Some (js ''male'')\<rparr>))
       \<and> (gender u = Some kadin \<longrightarrow>
            db' = map (\<lambda>d. if user_id d = user_id u then d\<lparr>gender := Some (js ''female'')\<rparr> else d) db
            \<and> v = getUser (u\<lparr>gender := Some (js ''female'')\<rparr>))
       \<and> (gender u \<noteq> Some erkek \<and> gender u \<noteq> Some kadin \<longrightarrow> db' = db \<and> v = getUser u)
       \<and> \<not> has_field v (js ''password'')"
proof -
  note run = findUser_verified [OF findUser_unverified(1-4) [OF assms(3,4)] assms(3)
      findUser_unverified(5) [OF assms(3,4)]]
  have mem: "u \<in> set db" using find_Some_mem [OF assms(3)] by simp
  then have oid: "ObjectId x (user_id u) = user_id u" using assms(2) by simp
  have found: "find (\<lambda>d. user_id d = user_id u) db = Some u"
    by (rule find_by_id_distinct [OF assms(1) mem])
  have legacy: "db' = map (\<lambda>d. if user_id d = user_id u then d\<lparr>gender := Some g\<rparr> else d) db
        \<and> v = getUser (u\<lparr>gender := Some g\<rparr>)"
    if "gender u = Some erkek \<or> gender u = Some kadin"
      and "g = (if gender u = Some erkek then js ''male'' else js ''female'')" for g
    using that assms(4) unfolding run
    by (auto simp: findByIdAndUpdate_def oid found getUser_then_callback_def
          update_first_map [OF assms(1)] split: if_splits)
  have other: "db' = db \<and> v = getUser u" if "gender u \<noteq> Some erkek \<and> gender u \<noteq> Some kadin"
    using that assms(4) unfolding run by simp
  have "\<not> has_field v (js ''password'')"
    using legacy other getUser_no_password
    by (cases "gender u = Some erkek \<or> gender u = Some kadin") auto
  then show ?thesis
    using legacy other legacy_nonempty(3) by auto
qed

text \<open>
  C5 on three sample accounts: one with each legacy gender and one with no gender.
\<close>

theorem findUser_legacy_gender_witness:
  "findUser sample_ext no_faults sample_email sample_password [legacy_user]
     = ([Success (getUser (legacy_user\<lparr>gender := Some (js ''male'')\<rparr>))],
        [legacy_user\<lparr>gender := Some (js ''male'')\<rparr>])
   \<and> gender legacy_user = Some erkek
   \<and> findUser sample_ext no_faults sample_email sample_password [kadin_user]
     = ([Success (getUser (kadin_user\<lparr>gender := Some (js ''female'')\<rparr>))],
        [kadin_user\<lparr>gender := Some (js ''female'')\<rparr>])
   \<and> gender kadin_user = Some kadin
   \<and> findUser sample_ext no_faults sample_email sample_password [sample_user]
     = ([Success (getUser sample_user)], [sample_user])
   \<and> gender sample_user \<noteq> Some erkek \<and> gender sample_user \<noteq> Some kadin
   \<and> \<not> has_field (getUser (legacy_user\<lparr>gender := Some (js ''male'')\<rparr>)) (js ''password'')"
  using findUser_legacy_gender [OF sample_wf legacy_login(4) sample_findUser(1)]
    findUser_legacy_gender [OF sample_wf sample_login(4) sample_findUser(2)]
    findUser_legacy_gender [OF sample_wf sample_login(1) sample_findUser(3)]
  by (simp add: sample_findUser legacy_login(6) sample_login(3,6))




text \<open>
  C7. The birth year range check of \<open>completeUser\<close> is inclusive on both ends. Once the
  checks before it have passed, a \<open>birth_year\<close> that parses to an integer below 1920 or
  above 2020 (1919 and 2021 among them) yields \<open>bad_request\<close> and changes nothing; one
  that parses to an integer from 1920 to 2020, both included, passes the check, and when
  the country resolves, the account exists, is not completed and the database does not
  fail, the call succeeds and stores the parsed integer.
\<close>

theorem completeUser_birth_year_range:
  assumes "id_payload_ok x i data" "name_ok data" "phone_ok x data" "gender_ok data"
    and "parseInt x (js_get data (js ''birth_year'')) = Some (Some n)"
  shows "(n < 1920 \<or> 2020 < n \<longrightarrow> completeUser x f i data db = (Error bad_request, db))
    \<and> (1920 \<le> n \<and> n \<le> 2020 \<and> country_ok x data
         \<and> \<not> findById_fails f \<and> \<not> findByIdAndUpdate_fails f
         \<and> find (\<lambda>d. user_id d = ObjectId x i) db = Some u \<and> \<not> completed u
       \<longrightarrow> (\<exists>db' u'. completeUser x f i data db = (Success (), db')
              \<and> find (\<lambda>d. user_id d = ObjectId x i) db' = Some u'
              \<and> birth_year u' = Some n \<and> completed u'))"
proof (intro conjI impI)
  have nt: "\<not> birth_year_throws x data"
    using assms(5) by (simp add: birth_year_throws_def)
  assume "n < 1920 \<or> 2020 < n"
  then have "\<not> birth_year_ok x data"
    using assms(5) by (auto simp: birth_year_ok_def)
  then show "completeUser x f i data db = (Error bad_request, db)"
    by (simp add: completeUser_after_gender [OF assms(1-4)] nt)
next
  have nt: "\<not> birth_year_throws x data"
    using assms(5) by (simp add: birth_year_throws_def)
  have n: "parsed_birth_year x data = n"
    using assms(5) by (simp add: parsed_birth_year_def)
  assume a: "1920 \<le> n \<and> n \<le> 2020 \<and> country_ok x data
         \<and> \<not> findById_fails f \<and> \<not> findByIdAndUpdate_fails f
         \<and> find (\<lambda>d. user_id d = ObjectId x i) db = Some u \<and> \<not> completed u"
  then have ok: "birth_year_ok x data"
    using assms(5) by (simp add: birth_year_ok_def)
  from a obtain c where c: "getCountryWithAlpha2Code x (js_get data (js ''country'')) = Some c"
    by (auto simp: country_ok_def)
  let ?upd = "completeUser_set data (JStr (stripped_phone data)) n c"
  have run: "completeUser x f i data db = (Success (), update_first (ObjectId x i) ?upd db)"
    using a
    by (simp add: completeUser_after_gender [OF assms(1-4)] nt n ok c completeUser_store_fresh)
  have found: "find (\<lambda>d. user_id d = ObjectId x i) (update_first (ObjectId x i) ?upd db)
                 = Some (?upd u)"
    using a by (simp add: find_update_first completeUser_set_id)
  have "birth_year (?upd u) = Some n" "completed (?upd u)"
    by (simp_all add: completeUser_set_def)
  with run found
  show "\<exists>db' u'. completeUser x f i data db = (Success (), db')
              \<and> find (\<lambda>d. user_id d = ObjectId x i) db' = Some u'
              \<and> birth_year u' = Some n \<and> completed u'"
    by blast
qed

text \<open>
  C7 on the sample account: the string 1919 and the number 2021 are refused, the string
  1920 and the number 2020 are stored.
\<close>

theorem completeUser_birth_year_range_witness:
  "completeUser sample_ext no_faults sample_id (sample_payload (JStr (js ''1919''))) [sample_user]
     = (Error bad_request, [sample_user])
   \<and> completeUser sample_ext no_faults sample_id (sample_payload (JNum 2021)) [sample_user]
     = (Error bad_request, [sample_user])
   \<and> (\<exists>db' u'. completeUser sample_ext no_faults sample_id (sample_payload (JStr (js ''1920''))) [sample_user]
          = (Success (), db')
        \<and> find (\<lambda>d. user_id d = ObjectId sample_ext sample_id) db' = Some u'
        \<and> birth_year u' = Some 1920 \<and> completed u')
   \<and> (\<exists>db' u'. completeUser sample_ext no_faults sample_id (sample_payload (JNum 2020)) [sample_user]
          = (Success (), db')
        \<and> find (\<lambda>d. user_id d = ObjectId sample_ext sample_id) db' = Some u'
        \<and> birth_year u' = Some 2020 \<and> completed u')"
proof -
  note r = completeUser_birth_year_range
             [OF sample_checks(1-4), of _ _ no_faults "[sample_user]" sample_user]
  have a: "parseInt x (js_get (sample_payload b) (js ''birth_year'')) = parseInt x b" for b x
    by (simp add: sample_checks(6))
  show ?thesis
    using r [of "JStr (js ''1919'')" 1919] r [of "JNum 2021" 2021]
      r [of "JStr (js ''1920'')" 1920] r [of "JNum 2020" 2020]
    by (simp add: a sample_parse sample_checks(5) sample_db del: find.simps)
qed

text \<open>
  C8. Take a \<open>createUser\<close> call whose payload is an object with a well-formed email
  and a string password. With a password of at least six code units, a \<open>code\<close> that
  can be converted, a save that does not fail and no stored account with that email or
  identifier, the call succeeds and appends one account, which has
  \<open>agreement_approved\<close> true, \<open>completed\<close> false, the schema's defaults elsewhere,
  and as its password the hash of the supplied one; the answer is that account sanitized.
  Every successful call has appended exactly such an account, and a call that does not
  succeed stores nothing. A password of length 5 yields \<open>password_length\<close> and no
  account.
\<close>

theorem createUser_account:
  assumes "truthy data" "typeof data = T_object"
    and "js_get data (js ''email'') = JStr e" "js_get data (js ''password'') = JStr p"
    and "e \<noteq> []" "isEmail x e"
  shows "(6 \<le> length p \<and> invitor_of x data = Some code_id \<and> \<not> save_fails f
            \<and> (\<forall>u \<in> set db. email u \<noteq> e \<and> user_id u \<noteq> new_id)
          \<longrightarrow> createUser x f new_id data db
                = (Success (getUser (new_User new_id e (hashPassword x p) code_id)),
                   db @ [new_User new_id e (hashPassword x p) code_id]))
       \<and> (createUser x f new_id data db = (Success v, db')
          \<longrightarrow> (\<exists>d. db' = db @ [d] \<and> v = getUser d \<and> email d = e
                  \<and> agreement_approved d \<and> \<not> completed d
                  \<and> password d = hashPassword x p
                  \<and> d = new_User new_id e (hashPassword x p) (invitor d)))
       \<and> ((\<forall>w. fst (createUser x f new_id data db) \<noteq> Success w)
          \<longrightarrow> snd (createUser x f new_id data db) = db)
       \<and> (length p = 5 \<longrightarrow> createUser x f new_id data db = (Error password_length, db))"
proof -
  have created: "createUser x f new_id data db
        = (Success (getUser (new_User new_id e (hashPassword x p) code_id)),
           db @ [new_User new_id e (hashPassword x p) code_id])"
    if "6 \<le> length p" "invitor_of x data = Some code_id" "\<not> save_fails f"
      "\<forall>u \<in> set db. email u \<noteq> e \<and> user_id u \<noteq> new_id"
    using that createUser_checked [OF assms that(1), of f new_id db]
    by (simp add: save_def new_User_def)
  have account: "\<exists>d. db' = db @ [d] \<and> v = getUser d \<and> email d = e
                  \<and> agreement_approved d \<and> \<not> completed d
                  \<and> password d = hashPassword x p
                  \<and> d = new_User new_id e (hashPassword x p) (invitor d)"
    if s: "createUser x f new_id data db = (Success v, db')"
  proof -
    from createUser_Success [OF s] assms(3,4)
    obtain c where c: "invitor_of x data = Some c" and len: "6 \<le> length p"
      by auto
    let ?d = "new_User new_id e (hashPassword x p) c"
    have "db' = db @ [?d] \<and> v = getUser ?d"
      using s unfolding createUser_checked [OF assms len] c
      by (auto simp: save_def new_User_def split: if_splits)
    moreover have "email ?d = e" "agreement_approved ?d" "\<not> completed ?d"
      "password ?d = hashPassword x p" "?d = new_User new_id e (hashPassword x p) (invitor ?d)"
      by (simp_all add: new_User_def)
    ultimately show ?thesis by blast
  qed
  have kept: "snd (createUser x f new_id data db) = db"
    if "\<forall>w. fst (createUser x f new_id data db) \<noteq> Success w"
  proof (cases "6 \<le> length p")
    case True
    with that show ?thesis
      by (auto simp: createUser_checked [OF assms True] save_def split: option.splits if_splits)
  next
    case False
    then show ?thesis
      using assms by (auto simp: createUser_def)
  qed
  have short: "createUser x f new_id data db = (Error password_length, db)" if "length p = 5"
    using that assms by (auto simp: createUser_def)
  show ?thesis
    using created account kept short by blast
qed

text \<open>
  C8 on the sample data: signing up on the empty collection stores the sample account,
  a second sign-up with the same email stores nothing, and the password 12345 is refused.
\<close>

theorem createUser_account_witness:
  "createUser sample_ext no_faults sample_id (signup_payload sample_password) []
     = (Success (getUser sample_user), [sample_user])
   \<and> agreement_approved sample_user \<and> \<not> completed sample_user
   \<and> password sample_user = hashPassword sample_ext sample_password
   \<and> snd (createUser sample_ext no_faults sample_id (signup_payload sample_password) [sample_user])
       = [sample_user]
   \<and> createUser sample_ext no_faults sample_id (signup_payload (js ''12345'')) []
       = (Error password_length, [])"
proof -
  have doc: "new_User sample_id sample_email (hashPassword sample_ext sample_password) None
               = sample_user"
    by (simp add: sample_user_def sample_hash sample_email_def sample_password_def)
  have dup: "fst (createUser sample_ext no_faults sample_id (signup_payload sample_password)
                [sample_user]) = Error email_duplication"
    by (simp add: createUser_checked [OF signup_checks(1-4) legacy_login(1,3)
          sample_password_length(1)] signup_checks(5) save_def signup_faults sample_user_email
          new_User_def)
  have no_dup: "\<forall>u \<in> set []. email u \<noteq> sample_email \<and> user_id u \<noteq> sample_id"
    by simp
  note r = createUser_account [OF signup_checks(1-4) legacy_login(1,3)]
  from r [where p = sample_password and code_id = None and f = no_faults and db = "[]"
            and new_id = sample_id]
  have first: "createUser sample_ext no_faults sample_id (signup_payload sample_password) []
     = (Success (getUser sample_user), [sample_user])"
    by (simp add: doc signup_faults sample_password_length signup_checks(5))
  from r [where p = sample_password and f = no_faults and db = "[]" and new_id = sample_id
            and v = "getUser sample_user" and db' = "[sample_user]"] first
  have props: "agreement_approved sample_user \<and> \<not> completed sample_user
     \<and> password sample_user = hashPassword sample_ext sample_password"
    by auto
  from r [where p = sample_password and f = no_faults and db = "[sample_user]"
            and new_id = sample_id] dup
  have second: "snd (createUser sample_ext no_faults sample_id (signup_payload sample_password)
                  [sample_user]) = [sample_user]"
    by simp
  from r [where p = "js ''12345''" and f = no_faults and db = "[]" and new_id = sample_id]
  have third: "createUser sample_ext no_faults sample_id (signup_payload (js ''12345'')) []
       = (Error password_length, [])"
    by (simp add: sample_password_length)
  show ?thesis
    using first props second third by blast
qed



text \<open>
  C10. \<open>updateUser\<close> leaves every document other than the target as it is, and in the
  target every field other than name, phone, city and town; and whenever its outcome is
  not a success the collection is entirely unchanged.
\<close>

theorem updateUser_frame:
  "list_all2 (updateUser_frame_rel (ObjectId x i)) db (snd (updateUser x f i data db))
   \<and> (fst (updateUser x f i data db) \<noteq> Success () \<longrightarrow> snd (updateUser x f i data db) = db)"
  using updateUser_frame_all updateUser_unchanged_unless_success by blast

text \<open>
  C10 on the sample data: a call on a collection of two accounts leaves the second one
  alone, and a refused call leaves the collection as it is.
\<close>

theorem updateUser_frame_witness:
  "list_all2 (updateUser_frame_rel (ObjectId sample_ext sample_id)) [sample_user, second_user]
     (snd (updateUser sample_ext no_faults sample_id (JStr (js ''B'')) [sample_user, second_user]))
   \<and> user_id second_user \<noteq> ObjectId sample_ext sample_id
   \<and> fst (updateUser sample_ext no_faults sample_id city_only_payload [sample_user]) \<noteq> Success ()
   \<and> snd (updateUser sample_ext no_faults sample_id city_only_payload [sample_user]) = [sample_user]"
  using updateUser_frame [of sample_ext sample_id "[sample_user, second_user]" no_faults "JStr (js ''B'')"]
    updateUser_frame [of sample_ext sample_id "[sample_user]" no_faults city_only_payload]
  by (simp add: updateUser_object_payload city_only_payload_def second_user_def new_User_def
        sample_ObjectId sample_id_def js_def)

end
